theory Spec2Isabelle
  imports
    Complex_Main
    "HOL-Library.Finite_Map"
    "HOL-Library.Multiset"
    "HOL-Library.Char_ord"
    "HOL-Library.List_Lexorder"
    "HOL-Library.Product_Lexorder"
begin

section \<open>JavaScript values, errors and awaited replies\<close>

text \<open>
  The client under \<^verbatim>\<open>src/supabase/schema.sql\<close> (from its line 235 on, the file holds the
  JavaScript of \<^verbatim>\<open>api\<close>) talks to a relational service through the query builder
  \<^verbatim>\<open>supabase\<close>. Every \<^verbatim>\<open>await\<close> of a query resolves to an object
  \<^verbatim>\<open>{ data, error }\<close>; the functions of \<^verbatim>\<open>api\<close> wrap their body in
  \<^verbatim>\<open>try { ... } catch (error) { ... }\<close>. Thrown values are results \<open>Inl e\<close>,
  returned values are results \<open>Inr v\<close>.
\<close>

type_synonym uuid = nat

text \<open>
  A JSON value: a number by its value, an object as the finite map from its keys to its
  members (the order of the keys is no part of it).
\<close>

datatype json =
    JNull
  | JBool bool
  | JNum rat
  | JStr string
  | JArr "json list"
  | JObj "(string, json) fmap"

text \<open>What \<^verbatim>\<open>if (v)\<close> and \<^verbatim>\<open>v || d\<close> test: objects and arrays are always truthy.\<close>

fun truthy :: "json \<Rightarrow> bool" where
  "truthy JNull = False"
| "truthy (JBool b) = b"
| "truthy (JNum n) = (n \<noteq> 0)"
| "truthy (JStr s) = (s \<noteq> [])"
| "truthy (JArr xs) = True"
| "truthy (JObj kvs) = True"

text \<open>An argument or property that is \<^verbatim>\<open>undefined\<close> or \<^verbatim>\<open>null\<close> is \<open>None\<close>.\<close>

definition truthy_int :: "int option \<Rightarrow> bool" where
  "truthy_int v = (case v of None \<Rightarrow> False | Some n \<Rightarrow> n \<noteq> 0)"

definition truthy_str :: "string option \<Rightarrow> bool" where
  "truthy_str v = (case v of None \<Rightarrow> False | Some s \<Rightarrow> s \<noteq> [])"

text \<open>\<^verbatim>\<open>v || d\<close> for a property \<open>v\<close> of the caller's object.\<close>

definition js_or :: "json option \<Rightarrow> json \<Rightarrow> json" where
  "js_or v d = (case v of None \<Rightarrow> d | Some x \<Rightarrow> if truthy x then x else d)"

text \<open>
  A thrown value is a JavaScript \<^verbatim>\<open>Error\<close> with its message, the error object of a
  database request with its \<^verbatim>\<open>code\<close> (an SQLSTATE such as 23505, or a code of the
  REST layer such as PGRST116), or the error object of the identity service.
\<close>

datatype error =
    Error string
  | PostgrestError string
  | AuthApiError string

fun code :: "error \<Rightarrow> string option" where
  "code (PostgrestError c) = Some c"
| "code (Error m) = None"
| "code (AuthApiError m) = None"

datatype 'a reply = Reply (reply_data: "'a option") (reply_error: "error option")

datatype 'a awaited = Rejected error | Resolved "'a reply"

definition try_catch :: "(error + 'a) \<Rightarrow> (error \<Rightarrow> error + 'a) \<Rightarrow> error + 'a" where
  "try_catch body handler = (case body of Inl e \<Rightarrow> handler e | Inr v \<Rightarrow> Inr v)"

text \<open>
  What the service accepts in a column: an \<open>INTEGER\<close> holds 32 bits and a value outside
  them is refused with 22003; a \<open>JSONB\<close> value holds no character NUL, in a string or
  in a key, and a value with one is refused with 22P05.
\<close>

definition int4 :: "int \<Rightarrow> bool" where
  "int4 n = (- 2147483648 \<le> n \<and> n \<le> 2147483647)"

definition no_nul :: "string \<Rightarrow> bool" where
  "no_nul s = (CHR 0x00 \<notin> set s)"

primrec jsonb_in :: "json \<Rightarrow> bool" where
  "jsonb_in JNull = True"
| "jsonb_in (JBool b) = True"
| "jsonb_in (JNum n) = True"
| "jsonb_in (JStr s) = no_nul s"
| "jsonb_in (JArr xs) = list_all id (map jsonb_in xs)"
| "jsonb_in (JObj m) = fmpred (\<lambda>k ok. no_nul k \<and> ok) (fmmap jsonb_in m)"

text \<open>\<^verbatim>\<open>.single()\<close>: exactly one row, or the error PGRST116 and no data.\<close>

definition single :: "'a list \<Rightarrow> 'a reply" where
  "single rows =
     (case rows of
        [r] \<Rightarrow> Reply (Some r) None
      | _ \<Rightarrow> Reply None (Some (PostgrestError ''PGRST116'')))"

section \<open>The service's tables\<close>

text \<open>
  The tables are those of the DDL in \<^verbatim>\<open>src/supabase/schema.sql\<close>, with the columns the
  client reads and writes. A \<open>uuid\<close> column default \<^verbatim>\<open>uuid_generate_v4()\<close> is the
  argument \<open>g\<close> of an inserting request: the identifier the service draws for it.
  Timestamps other than \<open>completed_at\<close> are left out. The requests on \<open>user_progress\<close>,
  \<open>quiz_sessions\<close> and \<open>bookmarks\<close> are those of the signed-in owner of the rows, which
  the row-level policies of these tables let through; the policy of \<open>profiles\<close> is part
  of the model of the password reset.
\<close>

record question_row =
  q_id :: uuid
  q_year :: int
  q_section :: "string option"
  q_difficulty :: "string option"
  q_question_text :: string
  q_options :: json
  q_correct_answer :: string
  q_explanation :: "string option"

record study_guide_row =
  sg_id :: uuid
  sg_year :: int
  sg_section :: "string option"
  sg_title :: string
  sg_content :: string

record profile_row =
  p_id :: uuid
  p_email :: "string option"
  p_security_question :: "string option"
  p_security_answer :: "string option"

text \<open>
  \<open>up_id\<close> is \<open>None\<close> in a row as the client writes it (the object given to
  \<^verbatim>\<open>.upsert\<close>, the default document of \<^verbatim>\<open>userProgress.get\<close>) and \<open>Some i\<close> in a
  stored row.
\<close>

record user_progress_row =
  up_id :: "uuid option"
  up_user_id :: uuid
  up_year :: int
  up_progress_data :: json
  up_exam_readiness :: json
  up_statistics :: json
  up_bookmarks :: json
  up_weak_areas :: json
  up_streak_data :: json

record quiz_session_row =
  qs_id :: uuid
  qs_user_id :: uuid
  qs_year :: int
  qs_quiz_mode :: string
  qs_score :: int
  qs_total_questions :: int
  qs_completed_at :: "nat option"

record bookmark_row =
  bm_id :: uuid
  bm_user_id :: uuid
  bm_question_id :: uuid
  bm_year :: int

record db =
  public_profiles :: "profile_row list"
  auth_users :: "uuid \<rightharpoonup> string"
  public_questions :: "question_row list"
  public_study_guides :: "study_guide_row list"
  public_user_progress :: "user_progress_row list"
  public_quiz_sessions :: "quiz_session_row list"
  public_bookmarks :: "bookmark_row list"

section \<open>Reference data: questions and study guides\<close>

text \<open>
  The request the builder chain describes: \<^verbatim>\<open>.eq(column, value)\<close> adds an equality
  filter, and the order is always \<^verbatim>\<open>.order('year, section')\<close>.
\<close>

record questions_query =
  eq_year :: "int option"
  eq_section :: "string option"
  eq_difficulty :: "string option"

record study_guides_query =
  sg_eq_year :: "int option"
  sg_eq_section :: "string option"

text \<open>
  The order of \<^verbatim>\<open>year, section\<close>, ascending: by year, then by section, a row with no
  section after the others (NULLS LAST, the default of an ascending order). Text is
  compared character by character.
\<close>

definition section_key :: "string option \<Rightarrow> bool \<times> string" where
  "section_key s = (case s of None \<Rightarrow> (True, []) | Some t \<Rightarrow> (False, t))"

definition question_key :: "question_row \<Rightarrow> int \<times> bool \<times> string" where
  "question_key q = (q_year q, section_key (q_section q))"

definition study_guide_key :: "study_guide_row \<Rightarrow> int \<times> bool \<times> string" where
  "study_guide_key g = (sg_year g, section_key (sg_section g))"

definition section_le :: "string option \<Rightarrow> string option \<Rightarrow> bool" where
  "section_le a b =
     (case b of
        None \<Rightarrow> True
      | Some t \<Rightarrow> (case a of None \<Rightarrow> False | Some s \<Rightarrow> s \<le> t))"

definition question_le :: "question_row \<Rightarrow> question_row \<Rightarrow> bool" where
  "question_le a b =
     (q_year a < q_year b \<or> (q_year a = q_year b \<and> section_le (q_section a) (q_section b)))"

definition question_matches :: "questions_query \<Rightarrow> question_row \<Rightarrow> bool" where
  "question_matches qry q =
     ((case eq_year qry of None \<Rightarrow> True | Some y \<Rightarrow> q_year q = y) \<and>
      (case eq_section qry of None \<Rightarrow> True | Some s \<Rightarrow> q_section q = Some s) \<and>
      (case eq_difficulty qry of None \<Rightarrow> True | Some d \<Rightarrow> q_difficulty q = Some d))"

definition study_guide_matches :: "study_guides_query \<Rightarrow> study_guide_row \<Rightarrow> bool" where
  "study_guide_matches qry g =
     ((case sg_eq_year qry of None \<Rightarrow> True | Some y \<Rightarrow> sg_year g = y) \<and>
      (case sg_eq_section qry of None \<Rightarrow> True | Some s \<Rightarrow> sg_section g = Some s))"

text \<open>The service's answer to the two requests.\<close>

definition pg_select_questions ::
  "db \<Rightarrow> questions_query \<Rightarrow> question_row list awaited" where
  "pg_select_questions d qry =
     Resolved (Reply
       (Some (sort_key question_key (filter (question_matches qry) (public_questions d))))
       None)"

definition pg_select_study_guides ::
  "db \<Rightarrow> study_guides_query \<Rightarrow> study_guide_row list awaited" where
  "pg_select_study_guides d qry =
     Resolved (Reply
       (Some (sort_key study_guide_key
                (filter (study_guide_matches qry) (public_study_guides d))))
       None)"

text \<open>
  \<^verbatim>\<open>questions.getAll(year = null, section = null, difficulty = null)\<close>. First the
  request its builder chain describes, then the function: the parameter \<open>send\<close> is
  \<^verbatim>\<open>await query\<close>, what the service, or the failure to reach it, makes of the request.
\<close>

definition questions_request ::
  "int option \<Rightarrow> string option \<Rightarrow> string option \<Rightarrow> questions_query" where
  "questions_request year section difficulty =
     (let query = \<lparr>eq_year = None, eq_section = None, eq_difficulty = None\<rparr>;
          query = (if truthy_int year then query\<lparr>eq_year := year\<rparr> else query);
          query = (if truthy_str section then query\<lparr>eq_section := section\<rparr> else query);
          query = (if truthy_str difficulty then query\<lparr>eq_difficulty := difficulty\<rparr> else query)
      in query)"

definition questions_getAll ::
  "(questions_query \<Rightarrow> question_row list awaited) \<Rightarrow>
     int option \<Rightarrow> string option \<Rightarrow> string option \<Rightarrow> error + question_row list" where
  "questions_getAll send year section difficulty =
     try_catch
       (case send (questions_request year section difficulty) of
          Rejected e \<Rightarrow> Inl e
        | Resolved r \<Rightarrow>
            (case reply_error r of
               Some e \<Rightarrow> Inl e
             | None \<Rightarrow> Inr (case reply_data r of Some rows \<Rightarrow> rows | None \<Rightarrow> [])))
       (\<lambda>e. Inr [])"

text \<open>\<^verbatim>\<open>studyGuides.getAll(year = null, section = null)\<close>, in the same way.\<close>

definition study_guides_request :: "int option \<Rightarrow> string option \<Rightarrow> study_guides_query" where
  "study_guides_request year section =
     (let query = \<lparr>sg_eq_year = None, sg_eq_section = None\<rparr>;
          query = (if truthy_int year then query\<lparr>sg_eq_year := year\<rparr> else query);
          query = (if truthy_str section then query\<lparr>sg_eq_section := section\<rparr> else query)
      in query)"

definition studyGuides_getAll ::
  "(study_guides_query \<Rightarrow> study_guide_row list awaited) \<Rightarrow>
     int option \<Rightarrow> string option \<Rightarrow> error + study_guide_row list" where
  "studyGuides_getAll send year section =
     try_catch
       (case send (study_guides_request year section) of
          Rejected e \<Rightarrow> Inl e
        | Resolved r \<Rightarrow>
            (case reply_error r of
               Some e \<Rightarrow> Inl e
             | None \<Rightarrow> Inr (case reply_data r of Some rows \<Rightarrow> rows | None \<Rightarrow> [])))
       (\<lambda>e. Inr [])"

text \<open>The error an awaited request failed with: its rejection, or the error of its reply.\<close>

definition awaited_error :: "'a awaited \<Rightarrow> error option" where
  "awaited_error aw = (case aw of Rejected e \<Rightarrow> Some e | Resolved r \<Rightarrow> reply_error r)"

section \<open>User progress\<close>

text \<open>The caller's \<^verbatim>\<open>progressData\<close>: a property it does not have is \<open>None\<close>.\<close>

record progress_document =
  progress_data :: "json option"
  exam_readiness :: "json option"
  statistics :: "json option"
  bookmarks :: "json option"
  weak_areas :: "json option"
  streak_data :: "json option"

text \<open>
  \<^verbatim>\<open>from('user_progress').select('*').eq('user_id', userId).eq('year', year).single()\<close>:
  the filter on \<open>year\<close> compares an \<open>INTEGER\<close> column, and a value outside its range
  fails the request.
\<close>

definition pg_select_user_progress ::
  "db \<Rightarrow> uuid \<times> int \<Rightarrow> user_progress_row awaited" where
  "pg_select_user_progress d key =
     (if \<not> int4 (snd key) then Resolved (Reply None (Some (PostgrestError ''22003'')))
      else Resolved (single (filter (\<lambda>r. up_user_id r = fst key \<and> up_year r = snd key)
                               (public_user_progress d))))"

definition default_document :: "uuid \<Rightarrow> int \<Rightarrow> user_progress_row" where
  "default_document userId year =
     \<lparr>up_id = None, up_user_id = userId, up_year = year,
      up_progress_data = JObj fmempty, up_exam_readiness = JObj fmempty, up_statistics = JObj fmempty,
      up_bookmarks = JArr [], up_weak_areas = JArr [], up_streak_data = JObj fmempty\<rparr>"

text \<open>\<^verbatim>\<open>userProgress.get(userId, year)\<close>; the result \<open>Inr None\<close> is \<^verbatim>\<open>null\<close>.\<close>

definition userProgress_get ::
  "(uuid \<times> int \<Rightarrow> user_progress_row awaited) \<Rightarrow> uuid \<Rightarrow> int \<Rightarrow>
     error + user_progress_row option" where
  "userProgress_get send userId year =
     try_catch
       (case send (userId, year) of
          Rejected e \<Rightarrow> Inl e
        | Resolved r \<Rightarrow>
            (case reply_error r of
               Some e \<Rightarrow>
                 if code e \<noteq> Some ''PGRST116'' then Inl e
                 else Inr (Some (case reply_data r of
                                   Some row \<Rightarrow> row
                                 | None \<Rightarrow> default_document userId year))
             | None \<Rightarrow>
                 Inr (Some (case reply_data r of
                              Some row \<Rightarrow> row
                            | None \<Rightarrow> default_document userId year))))
       (\<lambda>e. Inr None)"

text \<open>
  \<^verbatim>\<open>.upsert(row)\<close> sends an insert that resolves duplicates by merging. The rows that
  count as duplicates are those equal on the columns of the option \<^verbatim>\<open>onConflict\<close>; when
  the option is not given, as in \<^verbatim>\<open>userProgress.update\<close>, they are the rows with the same
  primary key. The statement is
  \<^verbatim>\<open>INSERT ... ON CONFLICT (target) DO UPDATE SET column = EXCLUDED.column\<close>: a row that
  meets no duplicate on the target is inserted, and the update or the insert fails with
  23505 when it breaks another unique constraint of the table (\<open>id\<close> is the primary key
  and \<^verbatim>\<open>UNIQUE(user_id, year)\<close> the second constraint), with 23503 when \<open>user_id\<close> is not
  the \<open>id\<close> of a profile. Before that the row is built from the values sent, and a
  value its column does not accept fails the request.
\<close>

definition row_accepted :: "user_progress_row \<Rightarrow> error option" where
  "row_accepted r =
     (if \<not> int4 (up_year r) then Some (PostgrestError ''22003'')
      else if \<not> (jsonb_in (up_progress_data r) \<and> jsonb_in (up_exam_readiness r) \<and>
                  jsonb_in (up_statistics r) \<and> jsonb_in (up_bookmarks r) \<and>
                  jsonb_in (up_weak_areas r) \<and> jsonb_in (up_streak_data r))
      then Some (PostgrestError ''22P05'')
      else None)"

datatype conflict_target = OnPrimaryKey | OnUserYear

definition same_pk :: "user_progress_row \<Rightarrow> user_progress_row \<Rightarrow> bool" where
  "same_pk a b = (up_id a = up_id b)"

definition same_user_year :: "user_progress_row \<Rightarrow> user_progress_row \<Rightarrow> bool" where
  "same_user_year a b = (up_user_id a = up_user_id b \<and> up_year a = up_year b)"

fun arbiter :: "conflict_target \<Rightarrow> user_progress_row \<Rightarrow> user_progress_row \<Rightarrow> bool" where
  "arbiter OnPrimaryKey a b = same_pk a b"
| "arbiter OnUserYear a b = same_user_year a b"

definition pg_upsert_user_progress ::
  "conflict_target option \<Rightarrow> uuid \<Rightarrow> user_progress_row \<Rightarrow> db \<Rightarrow>
     user_progress_row reply \<times> db" where
  "pg_upsert_user_progress onConflict g payload d =
     (let target = (case onConflict of None \<Rightarrow> OnPrimaryKey | Some t \<Rightarrow> t);
          proposed = (case up_id payload of None \<Rightarrow> payload\<lparr>up_id := Some g\<rparr> | Some i \<Rightarrow> payload);
          tbl = public_user_progress d;
          row = (case filter (arbiter target proposed) tbl of
                   [] \<Rightarrow> proposed
                 | x # xs \<Rightarrow> (case up_id payload of None \<Rightarrow> payload\<lparr>up_id := up_id x\<rparr> | Some i \<Rightarrow> payload));
          others = filter (\<lambda>x. \<not> arbiter target proposed x) tbl
      in if row_accepted payload \<noteq> None
         then (Reply None (row_accepted payload), d)
         else if list_ex (\<lambda>x. same_pk row x \<or> same_user_year row x) others
         then (Reply None (Some (PostgrestError ''23505'')), d)
         else if \<not> list_ex (\<lambda>p. p_id p = up_user_id row) (public_profiles d)
         then (Reply None (Some (PostgrestError ''23503'')), d)
         else (Reply (Some row) None,
               d\<lparr>public_user_progress :=
                    (if list_ex (arbiter target proposed) tbl
                     then map (\<lambda>x. if arbiter target proposed x then row else x) tbl
                     else tbl @ [row])\<rparr>))"

text \<open>
  \<^verbatim>\<open>userProgress.update(userId, year, progressData)\<close>: the upsert has no
  \<^verbatim>\<open>onConflict\<close> option, and the error is thrown again by the handler.
\<close>

definition userProgress_update ::
  "uuid \<Rightarrow> db \<Rightarrow> uuid \<Rightarrow> int \<Rightarrow> progress_document \<Rightarrow>
     (error + user_progress_row option) \<times> db" where
  "userProgress_update g d userId year progressData =
     (let (r, d') =
            pg_upsert_user_progress None g
              \<lparr>up_id = None, up_user_id = userId, up_year = year,
               up_progress_data = js_or (progress_data progressData) (JObj fmempty),
               up_exam_readiness = js_or (exam_readiness progressData) (JObj fmempty),
               up_statistics = js_or (statistics progressData) (JObj fmempty),
               up_bookmarks = js_or (bookmarks progressData) (JArr []),
               up_weak_areas = js_or (weak_areas progressData) (JArr []),
               up_streak_data = js_or (streak_data progressData) (JObj fmempty)\<rparr> d
      in (try_catch
            (case reply_error r of Some e \<Rightarrow> Inl e | None \<Rightarrow> Inr (reply_data r))
            (\<lambda>e. Inl e),
          d'))"

text \<open>
  The vocabulary of the statements on written documents: a sub-field the caller
  supplies is one the column accepts.
\<close>

definition supplied_accepted :: "json option \<Rightarrow> bool" where
  "supplied_accepted v = (case v of None \<Rightarrow> True | Some x \<Rightarrow> jsonb_in x)"

definition document_accepted :: "progress_document \<Rightarrow> bool" where
  "document_accepted doc =
     (supplied_accepted (progress_data doc) \<and> supplied_accepted (exam_readiness doc) \<and>
      supplied_accepted (statistics doc) \<and> supplied_accepted (bookmarks doc) \<and>
      supplied_accepted (weak_areas doc) \<and> supplied_accepted (streak_data doc))"

text \<open>
  The SQL function \<^verbatim>\<open>public.update_user_progress(p_user_id, p_year, p_progress_data)\<close>
  of the same file writes the same table with
  \<^verbatim>\<open>INSERT ... ON CONFLICT (user_id, year) DO UPDATE SET progress_data = p_progress_data\<close>;
  the columns it does not name take their defaults on insert and keep their values on
  update.
\<close>

definition update_user_progress ::
  "uuid \<Rightarrow> db \<Rightarrow> uuid \<Rightarrow> int \<Rightarrow> json \<Rightarrow> (error + bool) \<times> db" where
  "update_user_progress g d p_user_id p_year p_progress_data =
     (let tbl = public_user_progress d;
          duplicate = (\<lambda>r. up_user_id r = p_user_id \<and> up_year r = p_year)
      in if \<not> int4 p_year
         then (Inl (PostgrestError ''22003''), d)
         else if \<not> jsonb_in p_progress_data
         then (Inl (PostgrestError ''22P05''), d)
         else if list_ex duplicate tbl
         then (Inr True,
               d\<lparr>public_user_progress :=
                    map (\<lambda>r. if duplicate r then r\<lparr>up_progress_data := p_progress_data\<rparr> else r) tbl\<rparr>)
         else if list_ex (\<lambda>r. up_id r = Some g) tbl
         then (Inl (PostgrestError ''23505''), d)
         else if \<not> list_ex (\<lambda>p. p_id p = p_user_id) (public_profiles d)
         then (Inl (PostgrestError ''23503''), d)
         else (Inr True,
               d\<lparr>public_user_progress :=
                    tbl @ [(default_document p_user_id p_year)
                             \<lparr>up_id := Some g, up_progress_data := p_progress_data\<rparr>]\<rparr>))"

section \<open>Bookmarks\<close>





section \<open>Quiz sessions\<close>

text \<open>
  The request of \<^verbatim>\<open>quizSessions.getHistory\<close>. The builder's \<^verbatim>\<open>.eq(column, value)\<close>
  takes two arguments and writes the filter \<^verbatim>\<open>column=eq.${value}\<close>, so
  \<^verbatim>\<open>.eq('completed_at', null, 'neq')\<close> is the filter \<^verbatim>\<open>completed_at=eq.null\<close>: equality
  with the text \<open>null\<close>, the third argument being dropped.
\<close>

record history_query =
  hq_user_id :: uuid
  hq_year :: int
  hq_completed_at_eq :: string
  hq_limit :: nat

text \<open>
  The order \<^verbatim>\<open>completed_at\<close> descending: a row with no \<open>completed_at\<close> counts as the
  largest (NULLS FIRST, the default of a descending order).
\<close>

definition completed_key :: "quiz_session_row \<Rightarrow> bool \<times> nat" where
  "completed_key s = (case qs_completed_at s of None \<Rightarrow> (True, 0) | Some t \<Rightarrow> (False, t))"


text \<open>
  The service compares the column with the filter's text read as a timestamp;
  \<open>timestamptz_in\<close> is that reading, \<open>None\<close> for a text that is no timestamp, on which the
  request fails with 22007. An equality is never true of a row whose column is null.
\<close>

definition pg_select_quiz_sessions ::
  "(string \<Rightarrow> nat option) \<Rightarrow> db \<Rightarrow> history_query \<Rightarrow> quiz_session_row list awaited" where
  "pg_select_quiz_sessions timestamptz_in d qry =
     (case timestamptz_in (hq_completed_at_eq qry) of
        None \<Rightarrow> Resolved (Reply None (Some (PostgrestError ''22007'')))
      | Some t \<Rightarrow>
          Resolved (Reply
            (Some (take (hq_limit qry)
                     (rev (sort_key completed_key
                        (filter (\<lambda>s. qs_user_id s = hq_user_id qry \<and> qs_year s = hq_year qry \<and>
                                      qs_completed_at s = Some t)
                           (public_quiz_sessions d))))))
            None))"


section \<open>Password reset\<close>

text \<open>
  The one client of the file is \<^verbatim>\<open>createClient(supabaseUrl, supabaseAnonKey)\<close>. Under the
  anon key a request runs with the row-level policies of its table, \<^verbatim>\<open>auth.uid()\<close> being
  the signed-in caller (\<open>None\<close> when nobody is signed in), and the administrative
  interface of the identity service refuses it; under the service-role key the policies
  are passed by and the administrative interface is open.
\<close>

datatype key_role = AnonKey | ServiceRoleKey

definition supabaseAnonKey :: key_role where
  "supabaseAnonKey = AnonKey"

text \<open>
  The policy of \<open>profiles\<close> for reading:
  \<^verbatim>\<open>"Users can view own profile" FOR SELECT USING (auth.uid() = id)\<close>.
\<close>

definition visible_profile :: "key_role \<Rightarrow> uuid option \<Rightarrow> profile_row \<Rightarrow> bool" where
  "visible_profile role auth_uid p = (role = ServiceRoleKey \<or> auth_uid = Some (p_id p))"

text \<open>
  \<^verbatim>\<open>from('profiles').select('id, security_answer').eq('email', email).single()\<close>: first
  the rows the request selects, then its reply.
\<close>

definition profiles_by_email ::
  "key_role \<Rightarrow> uuid option \<Rightarrow> db \<Rightarrow> string \<Rightarrow> profile_row list" where
  "profiles_by_email role auth_uid d email =
     filter (\<lambda>p. visible_profile role auth_uid p \<and> p_email p = Some email) (public_profiles d)"

definition pg_select_profile_by_email ::
  "key_role \<Rightarrow> uuid option \<Rightarrow> db \<Rightarrow> string \<Rightarrow> (uuid \<times> string option) reply" where
  "pg_select_profile_by_email role auth_uid d email =
     single (map (\<lambda>p. (p_id p, p_security_answer p)) (profiles_by_email role auth_uid d email))"

text \<open>
  \<^verbatim>\<open>auth.admin.updateUserById(id, { password })\<close>: refused under the anon key; under the
  service-role key it sets the password of the identity \<open>id\<close>, and fails when there is
  none.
\<close>

definition auth_admin_updateUserById ::
  "key_role \<Rightarrow> db \<Rightarrow> uuid \<Rightarrow> string \<Rightarrow> uuid reply \<times> db" where
  "auth_admin_updateUserById role d uid password =
     (case role of
        AnonKey \<Rightarrow> (Reply None (Some (AuthApiError ''User not allowed'')), d)
      | ServiceRoleKey \<Rightarrow>
          (case auth_users d uid of
             None \<Rightarrow> (Reply None (Some (AuthApiError ''User not found'')), d)
           | Some old \<Rightarrow>
               (Reply (Some uid) None, d\<lparr>auth_users := (auth_users d)(uid \<mapsto> password)\<rparr>)))"

text \<open>
  \<^verbatim>\<open>auth.resetPassword(email, securityAnswer, newPassword)\<close>, called by \<open>auth_uid\<close>. Two
  things it uses are not in the repository and are parameters: \<open>toLowerCase\<close> is
  \<^verbatim>\<open>String.prototype.toLowerCase\<close>, and \<open>rpc\<close> is
  \<^verbatim>\<open>await supabase.rpc('verify_security_answer', { p_user_id, p_answer })\<close>.
\<close>

definition resetPassword ::
  "(string \<Rightarrow> string) \<Rightarrow> (uuid \<Rightarrow> string \<Rightarrow> bool awaited) \<Rightarrow> uuid option \<Rightarrow> db \<Rightarrow>
     string \<Rightarrow> string \<Rightarrow> string \<Rightarrow> (error + bool) \<times> db" where
  "resetPassword toLowerCase rpc auth_uid d email securityAnswer newPassword =
     (let r = pg_select_profile_by_email supabaseAnonKey auth_uid d (toLowerCase email);
          (result, d') =
            (case (if reply_error r \<noteq> None then None else reply_data r) of
               None \<Rightarrow> (Inl (Error ''User not found''), d)
             | Some profiles \<Rightarrow>
                 (case rpc (fst profiles) (toLowerCase securityAnswer) of
                    Rejected e \<Rightarrow> (Inl e, d)
                  | Resolved v \<Rightarrow>
                      if reply_data v \<noteq> Some True
                      then (Inl (Error ''Invalid security answer''), d)
                      else (let (u, d'') =
                                  auth_admin_updateUserById supabaseAnonKey d (fst profiles)
                                    newPassword
                            in (case reply_error u of Some e \<Rightarrow> Inl e | None \<Rightarrow> Inr True,
                                d''))))
      in (try_catch result (\<lambda>e. Inl e), d'))"

section \<open>Example data\<close>

definition ex_profile :: profile_row where
  "ex_profile =
     \<lparr>p_id = 7, p_email = Some ''a@b.com'', p_security_question = Some ''Colour?'',
      p_security_answer = Some ''Blue''\<rparr>"

definition ex_profile_upper :: profile_row where
  "ex_profile_upper =
     \<lparr>p_id = 8, p_email = Some ''Al@b.com'', p_security_question = Some ''Pet?'',
      p_security_answer = Some ''Rex''\<rparr>"

definition ex_profile_lower :: profile_row where
  "ex_profile_lower =
     \<lparr>p_id = 9, p_email = Some ''al@b.com'', p_security_question = Some ''Pet?'',
      p_security_answer = Some ''Tom''\<rparr>"

definition ex_q1 :: question_row where
  "ex_q1 =
     \<lparr>q_id = 101, q_year = 1, q_section = Some ''Safety'', q_difficulty = Some ''easy'',
      q_question_text = ''t1'', q_options = JArr [JStr ''a'', JStr ''b''],
      q_correct_answer = ''a'', q_explanation = None\<rparr>"

definition ex_q2 :: question_row where
  "ex_q2 =
     \<lparr>q_id = 102, q_year = 2, q_section = Some ''Tools'', q_difficulty = Some ''hard'',
      q_question_text = ''t2'', q_options = JArr [JStr ''a'', JStr ''b''],
      q_correct_answer = ''b'', q_explanation = None\<rparr>"

definition ex_q3 :: question_row where
  "ex_q3 =
     \<lparr>q_id = 103, q_year = 1, q_section = Some ''Codes'', q_difficulty = Some ''easy'',
      q_question_text = ''t3'', q_options = JArr [JStr ''a'', JStr ''b''],
      q_correct_answer = ''b'', q_explanation = None\<rparr>"

definition ex_session_done :: quiz_session_row where
  "ex_session_done =
     \<lparr>qs_id = 30, qs_user_id = 7, qs_year = 2, qs_quiz_mode = ''practice'', qs_score = 3,
      qs_total_questions = 5, qs_completed_at = Some 100\<rparr>"

definition ex_session_open :: quiz_session_row where
  "ex_session_open =
     \<lparr>qs_id = 31, qs_user_id = 7, qs_year = 2, qs_quiz_mode = ''practice'', qs_score = 0,
      qs_total_questions = 5, qs_completed_at = None\<rparr>"

definition ex_bookmark :: bookmark_row where
  "ex_bookmark = \<lparr>bm_id = 50, bm_user_id = 7, bm_question_id = 101, bm_year = 1\<rparr>"

definition ex_db :: db where
  "ex_db =
     \<lparr>public_profiles = [ex_profile, ex_profile_upper],
      auth_users = [7 \<mapsto> ''oldpass'', 8 \<mapsto> ''secret''],
      public_questions = [ex_q1, ex_q2, ex_q3],
      public_study_guides = [],
      public_user_progress = [],
      public_quiz_sessions = [ex_session_done, ex_session_open],
      public_bookmarks = [ex_bookmark]\<rparr>"

definition ex_doc1 :: progress_document where
  "ex_doc1 =
     \<lparr>progress_data = Some (JObj (fmap_of_list [(''q1'', JStr ''correct'')])), exam_readiness = None,
      statistics = None, bookmarks = None, weak_areas = None, streak_data = None\<rparr>"

definition ex_doc2 :: progress_document where
  "ex_doc2 =
     \<lparr>progress_data = Some (JObj (fmap_of_list [(''q1'', JStr ''correct''), (''q2'', JStr ''wrong'')])),
      exam_readiness = None, statistics = Some (JObj (fmap_of_list [(''answered'', JNum 2)])),
      bookmarks = None, weak_areas = None, streak_data = None\<rparr>"

definition ex_doc_zero :: progress_document where
  "ex_doc_zero =
     \<lparr>progress_data = Some (JNum 0), exam_readiness = None, statistics = None,
      bookmarks = None, weak_areas = None, streak_data = None\<rparr>"

definition ex_row1 :: user_progress_row where
  "ex_row1 =
     \<lparr>up_id = Some 10, up_user_id = 7, up_year = 2,
      up_progress_data = JObj (fmap_of_list [(''q1'', JStr ''correct'')]), up_exam_readiness = JObj fmempty,
      up_statistics = JObj fmempty, up_bookmarks = JArr [], up_weak_areas = JArr [],
      up_streak_data = JObj fmempty\<rparr>"

definition ex_row2 :: user_progress_row where
  "ex_row2 =
     \<lparr>up_id = Some 10, up_user_id = 7, up_year = 2,
      up_progress_data = JObj (fmap_of_list [(''q1'', JStr ''correct''), (''q2'', JStr ''wrong'')]),
      up_exam_readiness = JObj fmempty, up_statistics = JObj (fmap_of_list [(''answered'', JNum 2)]),
      up_bookmarks = JArr [], up_weak_areas = JArr [], up_streak_data = JObj fmempty\<rparr>"

definition ex_row_zero :: user_progress_row where
  "ex_row_zero =
     \<lparr>up_id = Some 10, up_user_id = 7, up_year = 2,
      up_progress_data = JObj fmempty, up_exam_readiness = JObj fmempty,
      up_statistics = JObj fmempty, up_bookmarks = JArr [], up_weak_areas = JArr [],
      up_streak_data = JObj fmempty\<rparr>"

text \<open>Two accounts whose stored emails differ in letter case only.\<close>

definition ex_db_casings :: db where
  "ex_db_casings =
     ex_db\<lparr>public_profiles := [ex_profile, ex_profile_upper, ex_profile_lower],
           auth_users := [7 \<mapsto> ''oldpass'', 8 \<mapsto> ''secret'', 9 \<mapsto> ''hidden'']\<rparr>"

definition ex_db1 :: db where
  "ex_db1 = ex_db\<lparr>public_user_progress := [ex_row1]\<rparr>"

text \<open>A reading of timestamps that knows two of them.\<close>

definition ex_timestamptz_in :: "string \<Rightarrow> nat option" where
  "ex_timestamptz_in s =
     (if s = ''1970-01-01T00:01:40Z'' then Some 100
      else if s = ''1970-01-01T00:03:20Z'' then Some 200
      else None)"

text \<open>A request that never arrives, and a request the service refuses.\<close>

definition ex_offline :: "'q \<Rightarrow> 'a awaited" where
  "ex_offline qry = Rejected (Error ''Failed to fetch'')"

definition ex_denied :: "'q \<Rightarrow> 'a awaited" where
  "ex_denied qry = Resolved (Reply None (Some (PostgrestError ''42501'')))"

text \<open>
  What \<^verbatim>\<open>String.prototype.toLowerCase\<close> does on text whose letters are among A to Z
  and a to z, and a verification that knows the answers of the three example accounts
  in lower case.
\<close>

definition upper_letters :: string where
  "upper_letters = ''ABCDEFGHIJKLMNOPQRSTUVWXYZ''"

definition lower_letters :: string where
  "lower_letters = ''abcdefghijklmnopqrstuvwxyz''"

definition ex_toLowerCase :: "string \<Rightarrow> string" where
  "ex_toLowerCase s =
     map (\<lambda>c. case map_of (zip upper_letters lower_letters) c of None \<Rightarrow> c | Some l \<Rightarrow> l) s"

definition ex_rpc :: "uuid \<Rightarrow> string \<Rightarrow> bool awaited" where
  "ex_rpc p_user_id p_answer =
     Resolved (Reply
       (Some ((p_user_id = 7 \<and> p_answer = ''blue'') \<or> (p_user_id = 8 \<and> p_answer = ''rex'') \<or>
              (p_user_id = 9 \<and> p_answer = ''tom'')))
       None)"

section \<open>Auxiliary facts\<close>

lemmas ex_defs =
  ex_profile_def ex_profile_upper_def ex_profile_lower_def ex_q1_def ex_q2_def ex_q3_def
  ex_session_done_def ex_session_open_def ex_bookmark_def ex_db_def ex_db_casings_def
  ex_doc1_def ex_doc2_def ex_doc_zero_def ex_row1_def ex_row2_def ex_row_zero_def ex_db1_def

lemmas lower_defs = ex_toLowerCase_def upper_letters_def lower_letters_def

lemma question_key_le: "question_key a \<le> question_key b \<longleftrightarrow> question_le a b"
  by (auto simp: question_key_def question_le_def section_key_def section_le_def
      split: option.splits)

lemma sorted_question_le: "sorted_wrt question_le (sort_key question_key xs)"
proof -
  have "sorted (map question_key (sort_key question_key xs))"
    by (rule sorted_sort_key)
  then show ?thesis
    by (simp add: sorted_map question_key_le)
qed

lemma request_matches:
  "question_matches (questions_request year section difficulty) q \<longleftrightarrow>
     ((truthy_int year \<longrightarrow> Some (q_year q) = year) \<and>
      (truthy_str section \<longrightarrow> q_section q = section) \<and>
      (truthy_str difficulty \<longrightarrow> q_difficulty q = difficulty))"
  by (auto simp: question_matches_def questions_request_def Let_def truthy_int_def
      truthy_str_def split: option.splits)

text \<open>Evaluating the acceptance of a JSON object member by member.\<close>

lemma fmpred_fmupd_iff:
  "fmpred P (fmupd k v m) \<longleftrightarrow> P k v \<and> fmpred (\<lambda>k' v'. k' \<noteq> k \<longrightarrow> P k' v') m"
  by (auto simp: fmpred_iff)

lemmas accepted_defs =
  row_accepted_def int4_def no_nul_def fmpred_fmupd_iff document_accepted_def
  supplied_accepted_def

lemma js_or_accepted: "supplied_accepted v \<Longrightarrow> jsonb_in d \<Longrightarrow> jsonb_in (js_or v d)"
  by (simp add: supplied_accepted_def js_or_def split: option.splits)

lemma arbiter_pk: "arbiter OnPrimaryKey a = same_pk a"
  by (rule ext) simp

text \<open>
  An upsert on the primary key whose row the columns accept and which meets no stored
  row inserts it.
\<close>

lemma pg_upsert_inserts:
  assumes noid: "up_id payload = None"
    and acc: "row_accepted payload = None"
    and fresh: "\<forall>r\<in>set (public_user_progress d). up_id r \<noteq> Some g"
    and norow: "\<forall>r\<in>set (public_user_progress d). \<not> same_user_year payload r"
    and prof: "\<exists>p\<in>set (public_profiles d). p_id p = up_user_id payload"
  shows "pg_upsert_user_progress None g payload d =
     (Reply (Some (payload\<lparr>up_id := Some g\<rparr>)) None,
      d\<lparr>public_user_progress := public_user_progress d @ [payload\<lparr>up_id := Some g\<rparr>]\<rparr>)"
proof -
  let ?row = "payload\<lparr>up_id := Some g\<rparr>"
  let ?tbl = "public_user_progress d"
  have f1: "filter (same_pk ?row) ?tbl = []"
    using fresh by (auto simp: filter_empty_conv same_pk_def)
  have f2: "filter (\<lambda>x. \<not> same_pk ?row x) ?tbl = ?tbl"
    using fresh by (auto simp: filter_id_conv same_pk_def)
  have f3: "\<not> list_ex (\<lambda>x. same_pk ?row x \<or> same_user_year ?row x) ?tbl"
    using fresh norow by (auto simp: list_ex_iff same_pk_def same_user_year_def)
  have f4: "list_ex (\<lambda>p. p_id p = up_user_id payload) (public_profiles d)"
    using prof by (simp add: list_ex_iff)
  have f5: "\<not> list_ex (same_pk ?row) ?tbl"
    using fresh by (auto simp: list_ex_iff same_pk_def)
  show ?thesis
    unfolding pg_upsert_user_progress_def Let_def
    by (simp add: noid acc arbiter_pk f1 f2 f3 f4 f5)
qed

lemma get_stored:
  assumes "int4 year"
    and "filter (\<lambda>r. up_user_id r = userId \<and> up_year r = year) (public_user_progress d) = [row]"
  shows "userProgress_get (pg_select_user_progress d) userId year = Inr (Some row)"
  by (simp add: userProgress_get_def pg_select_user_progress_def assms single_def try_catch_def)

text \<open>
  What the option \<^verbatim>\<open>onConflict: 'user_id,year'\<close> would make of the second write: the
  stored row keeps its \<open>id\<close> and takes the new columns.
\<close>

lemma pg_upsert_on_user_year_overwrites:
  "pg_upsert_user_progress (Some OnUserYear) 11 (ex_row2\<lparr>up_id := None\<rparr>) ex_db1 =
     (Reply (Some ex_row2) None, ex_db\<lparr>public_user_progress := [ex_row2]\<rparr>)"
  by (simp add: pg_upsert_user_progress_def Let_def same_pk_def same_user_year_def
      accepted_defs ex_defs)

text \<open>The SQL function, called twice for the same pair: one row, with the second data.\<close>

lemma update_user_progress_twice:
  "update_user_progress 10 ex_db 7 2 (JObj (fmap_of_list [(''q1'', JStr ''correct'')])) =
     (Inr True, ex_db1) \<and>
   update_user_progress 11 ex_db1 7 2
       (JObj (fmap_of_list [(''q1'', JStr ''correct''), (''q2'', JStr ''wrong'')])) =
     (Inr True, ex_db\<lparr>public_user_progress := [ex_row2\<lparr>up_statistics := JObj fmempty\<rparr>]\<rparr>)"
  by (simp add: update_user_progress_def default_document_def Let_def accepted_defs ex_defs)




lemma pg_select_quiz_sessions_example:
  "pg_select_quiz_sessions ex_timestamptz_in ex_db
     \<lparr>hq_user_id = 7, hq_year = 2, hq_completed_at_eq = ''1970-01-01T00:01:40Z'', hq_limit = 10\<rparr> =
   Resolved (Reply (Some [ex_session_done]) None)"
  by (simp add: pg_select_quiz_sessions_def ex_timestamptz_in_def ex_defs)

text \<open>
  The password reset by the rows its lookup selects: no single row, and it fails with
  \<open>User not found\<close>; one row, and the verification of the answer in lower case decides,
  the administrative call that follows a verified answer being refused under the anon
  key.
\<close>

lemma reset_not_single:
  assumes "\<forall>p. profiles_by_email supabaseAnonKey auth_uid d (toLowerCase email) \<noteq> [p]"
  shows "resetPassword toLowerCase rpc auth_uid d email securityAnswer newPassword =
     (Inl (Error ''User not found''), d)"
proof (cases "profiles_by_email supabaseAnonKey auth_uid d (toLowerCase email)")
  case Nil
  then show ?thesis
    by (simp add: resetPassword_def pg_select_profile_by_email_def single_def try_catch_def)
next
  case (Cons p ps)
  with assms obtain q qs where "ps = q # qs"
    by (cases ps) auto
  with Cons show ?thesis
    by (simp add: resetPassword_def pg_select_profile_by_email_def single_def try_catch_def)
qed

lemma admin_refused:
  "auth_admin_updateUserById supabaseAnonKey d uid password =
     (Reply None (Some (AuthApiError ''User not allowed'')), d)"
  by (simp add: auth_admin_updateUserById_def supabaseAnonKey_def)

lemma reset_single:
  assumes "profiles_by_email supabaseAnonKey auth_uid d (toLowerCase email) = [p]"
  shows "resetPassword toLowerCase rpc auth_uid d email securityAnswer newPassword =
     (case rpc (p_id p) (toLowerCase securityAnswer) of
        Rejected e \<Rightarrow> (Inl e, d)
      | Resolved v \<Rightarrow>
          if reply_data v \<noteq> Some True then (Inl (Error ''Invalid security answer''), d)
          else (Inl (AuthApiError ''User not allowed''), d))"
  by (simp add: resetPassword_def pg_select_profile_by_email_def assms single_def try_catch_def
      admin_refused split: awaited.splits)

text \<open>Under the anon key of the client the password reset never returns \<open>true\<close>.\<close>

lemma resetPassword_never_true:
  "fst (resetPassword toLowerCase rpc auth_uid d email securityAnswer newPassword) \<noteq> Inr True"
proof (cases "\<exists>p. profiles_by_email supabaseAnonKey auth_uid d (toLowerCase email) = [p]")
  case True
  then obtain p where "profiles_by_email supabaseAnonKey auth_uid d (toLowerCase email) = [p]"
    by blast
  then show ?thesis
    by (simp add: reset_single split: awaited.splits)
next
  case False
  then show ?thesis
    by (simp add: reset_not_single)
qed

section \<open>Reference data reads\<close>

text \<open>
  Claim C7. \<^verbatim>\<open>questions.getAll\<close> and \<^verbatim>\<open>studyGuides.getAll\<close> never hand an error to
  their caller: whatever the awaited request does, they return a list, and when the
  request fails (it is rejected, or its reply carries an error) the list is empty.
\<close>

theorem getAll_swallows_errors:
  "(\<exists>rows. questions_getAll send year section difficulty = Inr rows) \<and>
   (\<exists>guides. studyGuides_getAll send' year' section' = Inr guides) \<and>
   (awaited_error (send (questions_request year section difficulty)) \<noteq> None \<longrightarrow>
      questions_getAll send year section difficulty = Inr []) \<and>
   (awaited_error (send' (study_guides_request year' section')) \<noteq> None \<longrightarrow>
      studyGuides_getAll send' year' section' = Inr [])"
  by (auto simp: questions_getAll_def studyGuides_getAll_def try_catch_def awaited_error_def
      split: awaited.splits option.splits)

theorem getAll_swallows_errors_witness:
  "awaited_error (ex_offline (questions_request (Some 2) None None) :: question_row list awaited) \<noteq> None \<and>
   awaited_error (ex_denied (study_guides_request (Some 2) None) :: study_guide_row list awaited) \<noteq> None \<and>
   questions_getAll ex_offline (Some 2) None None = Inr [] \<and>
   studyGuides_getAll ex_denied (Some 2) None = Inr []"
  using getAll_swallows_errors [of ex_offline "Some 2" None None ex_denied "Some 2" None]
  by (simp add: awaited_error_def ex_offline_def ex_denied_def)

text \<open>
  Claim C8, as amended. On the service's answer, \<^verbatim>\<open>questions.getAll\<close> returns exactly
  the questions (each as often as the table holds it) that satisfy the conjunction of
  the equality filters whose argument is truthy: a year other than 0, a non-empty
  section, a non-empty difficulty. An argument that is absent, \<^verbatim>\<open>null\<close>, 0 or the empty
  string imposes no restriction. The result is ordered by year, then by section.
\<close>

theorem questions_getAll_filters_order:
  "\<exists>rows. questions_getAll (pg_select_questions d) year section difficulty = Inr rows \<and>
     mset rows =
       filter_mset
         (\<lambda>q. (truthy_int year \<longrightarrow> Some (q_year q) = year) \<and>
              (truthy_str section \<longrightarrow> q_section q = section) \<and>
              (truthy_str difficulty \<longrightarrow> q_difficulty q = difficulty))
         (mset (public_questions d)) \<and>
     sorted_wrt question_le rows"
proof -
  let ?rows =
    "sort_key question_key
       (filter (question_matches (questions_request year section difficulty))
          (public_questions d))"
  have 1: "questions_getAll (pg_select_questions d) year section difficulty = Inr ?rows"
    by (simp add: questions_getAll_def pg_select_questions_def try_catch_def)
  have 2: "mset ?rows =
     filter_mset
       (\<lambda>q. (truthy_int year \<longrightarrow> Some (q_year q) = year) \<and>
            (truthy_str section \<longrightarrow> q_section q = section) \<and>
            (truthy_str difficulty \<longrightarrow> q_difficulty q = difficulty))
       (mset (public_questions d))"
    by (simp add: request_matches)
  show ?thesis
    using 1 2 sorted_question_le by blast
qed

theorem questions_getAll_filters_order_witness:
  "questions_getAll (pg_select_questions ex_db) (Some 1) None (Some ''easy'') =
     Inr [ex_q3, ex_q1] \<and>
   truthy_int (Some 1) \<and> \<not> truthy_str None \<and> truthy_str (Some ''easy'') \<and>
   question_le ex_q3 ex_q1"
  using questions_getAll_filters_order [of ex_db "Some 1" None "Some ''easy''"]
  by (simp add: questions_getAll_def pg_select_questions_def try_catch_def questions_request_def
      truthy_int_def truthy_str_def question_matches_def question_key_def section_key_def
      question_le_def section_le_def ex_defs)

text \<open>
  The claim as stated fails for the year 0: the filter is supplied, no question of the
  table has that year, and the questions of the years 1 and 2 are returned.
\<close>

theorem questions_getAll_year_zero_counterexample:
  "questions_getAll (pg_select_questions ex_db) (Some 0) None None =
     Inr [ex_q3, ex_q1, ex_q2] \<and>
   q_year ex_q3 = 1 \<and> q_year ex_q1 = 1 \<and> q_year ex_q2 = 2"
  by (simp add: questions_getAll_def pg_select_questions_def try_catch_def questions_request_def
      truthy_int_def truthy_str_def question_matches_def question_key_def section_key_def
      ex_defs)

section \<open>Reading and writing user progress\<close>




text \<open>
  Claim C9. When the read of \<^verbatim>\<open>userProgress.get\<close> fails with an error whose code is
  not PGRST116, the function returns \<^verbatim>\<open>null\<close>: not the default document, and no thrown
  error.
\<close>

theorem userProgress_get_null_on_error:
  assumes "awaited_error (send (userId, year)) = Some e"
    and "code e \<noteq> Some ''PGRST116''"
  shows "userProgress_get send userId year = Inr None"
  using assms
  by (auto simp: userProgress_get_def try_catch_def awaited_error_def
      split: awaited.splits option.splits)

theorem userProgress_get_null_on_error_witness:
  "awaited_error (ex_denied (7::nat, 2::int) :: user_progress_row awaited) =
     Some (PostgrestError ''42501'') \<and>
   code (PostgrestError ''42501'') \<noteq> Some ''PGRST116'' \<and>
   userProgress_get ex_denied 7 2 = Inr None"
proof -
  have h1: "awaited_error (ex_denied (7::nat, 2::int) :: user_progress_row awaited) =
      Some (PostgrestError ''42501'')"
    by (simp add: awaited_error_def ex_denied_def)
  have h2: "code (PostgrestError ''42501'') \<noteq> Some ''PGRST116''"
    by simp
  show ?thesis
    using h1 h2 userProgress_get_null_on_error [where send = ex_denied, OF h1 h2] by simp
qed

text \<open>
  Claim C1. Two calls of \<^verbatim>\<open>userProgress.update\<close> for the same \<open>(userId, year)\<close> are
  claimed to leave one row that holds the fields of the second call, the second call
  raising no error. Evaluated for the user 7 and the year 2: the first call stores its
  row, the second call is refused with the unique violation 23505 of
  \<^verbatim>\<open>UNIQUE(user_id, year)\<close>, and the stored row still holds the fields of the first call.
  The upsert of the client names no conflict target, where the SQL function of the same
  file names \<open>(user_id, year)\<close>.
\<close>

theorem userProgress_update_twice_conflict:
  "userProgress_update 10 ex_db 7 2 ex_doc1 = (Inr (Some ex_row1), ex_db1) \<and>
   userProgress_update 11 ex_db1 7 2 ex_doc2 = (Inl (PostgrestError ''23505''), ex_db1) \<and>
   userProgress_get (pg_select_user_progress ex_db1) 7 2 = Inr (Some ex_row1) \<and>
   up_progress_data ex_row1 = JObj (fmap_of_list [(''q1'', JStr ''correct'')])"
  by (simp add: userProgress_update_def pg_upsert_user_progress_def Let_def try_catch_def js_or_def
      same_pk_def same_user_year_def userProgress_get_def pg_select_user_progress_def
      single_def accepted_defs ex_defs)

text \<open>
  Claim C3, as amended. For a user who has a profile, a year within the range of
  \<open>INTEGER\<close>, a pair \<open>(userId, year)\<close> with no stored row and a document whose supplied
  sub-fields hold no character NUL, \<^verbatim>\<open>userProgress.update\<close> succeeds and the
  \<^verbatim>\<open>userProgress.get\<close> that follows returns the row just written: \<open>user_id\<close> and \<open>year\<close>
  are the arguments, a sub-field supplied with a truthy value (an object, an array, a
  non-zero number, a non-empty string, \<^verbatim>\<open>true\<close>) has that value, and a sub-field that
  is omitted or supplied as \<^verbatim>\<open>null\<close>, \<^verbatim>\<open>false\<close>, 0 or the empty string has its
  empty-container default. The identifier \<open>g\<close> drawn for the new row is one no stored
  row has.
\<close>

theorem userProgress_update_then_get:
  assumes range: "int4 year"
    and acc: "document_accepted doc"
    and norow: "\<forall>r\<in>set (public_user_progress d). \<not> (up_user_id r = userId \<and> up_year r = year)"
    and fresh: "\<forall>r\<in>set (public_user_progress d). up_id r \<noteq> Some g"
    and prof: "\<exists>p\<in>set (public_profiles d). p_id p = userId"
  shows "\<exists>row d'. userProgress_update g d userId year doc = (Inr (Some row), d') \<and>
      userProgress_get (pg_select_user_progress d') userId year = Inr (Some row) \<and>
      up_user_id row = userId \<and> up_year row = year \<and>
      up_progress_data row = js_or (progress_data doc) (JObj fmempty) \<and>
      up_exam_readiness row = js_or (exam_readiness doc) (JObj fmempty) \<and>
      up_statistics row = js_or (statistics doc) (JObj fmempty) \<and>
      up_bookmarks row = js_or (bookmarks doc) (JArr []) \<and>
      up_weak_areas row = js_or (weak_areas doc) (JArr []) \<and>
      up_streak_data row = js_or (streak_data doc) (JObj fmempty)"
proof -
  define payload where
    "payload =
       \<lparr>up_id = None, up_user_id = userId, up_year = year,
        up_progress_data = js_or (progress_data doc) (JObj fmempty),
        up_exam_readiness = js_or (exam_readiness doc) (JObj fmempty),
        up_statistics = js_or (statistics doc) (JObj fmempty),
        up_bookmarks = js_or (bookmarks doc) (JArr []),
        up_weak_areas = js_or (weak_areas doc) (JArr []),
        up_streak_data = js_or (streak_data doc) (JObj fmempty)\<rparr>"
  define row where "row = payload\<lparr>up_id := Some g\<rparr>"
  define d' where "d' = d\<lparr>public_user_progress := public_user_progress d @ [row]\<rparr>"
  have p1: "up_id payload = None" "up_user_id payload = userId" "up_year payload = year"
    by (simp_all add: payload_def)
  have p2: "row_accepted payload = None"
    using range acc
    by (simp add: row_accepted_def payload_def document_accepted_def js_or_accepted)
  have ups: "pg_upsert_user_progress None g payload d = (Reply (Some row) None, d')"
    unfolding row_def d'_def
    using norow fresh prof by (intro pg_upsert_inserts) (auto simp: same_user_year_def p1 p2)
  have up: "userProgress_update g d userId year doc = (Inr (Some row), d')"
    unfolding userProgress_update_def payload_def[symmetric] ups
    by (simp add: try_catch_def)
  have r1: "up_user_id row = userId" "up_year row = year"
    by (simp_all add: row_def p1)
  have "filter (\<lambda>r. up_user_id r = userId \<and> up_year r = year) (public_user_progress d) = []"
    using norow by (simp add: filter_empty_conv)
  then have sel:
    "filter (\<lambda>r. up_user_id r = userId \<and> up_year r = year) (public_user_progress d') = [row]"
    by (simp add: d'_def r1)
  have get: "userProgress_get (pg_select_user_progress d') userId year = Inr (Some row)"
    using range sel by (rule get_stored)
  have flds:
    "up_progress_data row = js_or (progress_data doc) (JObj fmempty)"
    "up_exam_readiness row = js_or (exam_readiness doc) (JObj fmempty)"
    "up_statistics row = js_or (statistics doc) (JObj fmempty)"
    "up_bookmarks row = js_or (bookmarks doc) (JArr [])"
    "up_weak_areas row = js_or (weak_areas doc) (JArr [])"
    "up_streak_data row = js_or (streak_data doc) (JObj fmempty)"
    by (simp_all add: row_def payload_def)
  show ?thesis
    using up get r1 flds by blast
qed

theorem userProgress_update_then_get_witness:
  "int4 2 \<and> document_accepted ex_doc1 \<and>
   userProgress_update 10 ex_db 7 2 ex_doc1 = (Inr (Some ex_row1), ex_db1) \<and>
   userProgress_get (pg_select_user_progress ex_db1) 7 2 = Inr (Some ex_row1) \<and>
   up_progress_data ex_row1 = JObj (fmap_of_list [(''q1'', JStr ''correct'')]) \<and>
   up_exam_readiness ex_row1 = JObj fmempty \<and> up_statistics ex_row1 = JObj fmempty \<and>
   up_bookmarks ex_row1 = JArr [] \<and> up_weak_areas ex_row1 = JArr [] \<and>
   up_streak_data ex_row1 = JObj fmempty"
proof -
  have h0: "int4 2"
    by (simp add: int4_def)
  have h00: "document_accepted ex_doc1"
    by (simp add: accepted_defs ex_defs)
  have h1: "\<forall>r\<in>set (public_user_progress ex_db). \<not> (up_user_id r = 7 \<and> up_year r = 2)"
    by (simp add: ex_defs)
  have h2: "\<forall>r\<in>set (public_user_progress ex_db). up_id r \<noteq> Some 10"
    by (simp add: ex_defs)
  have h3: "\<exists>p\<in>set (public_profiles ex_db). p_id p = 7"
    by (simp add: ex_defs)
  show ?thesis
    using h0 h00 userProgress_update_then_get [OF h0 h00 h1 h2 h3]
    by (simp add: userProgress_update_def pg_upsert_user_progress_def Let_def try_catch_def
        js_or_def same_pk_def same_user_year_def userProgress_get_def
        pg_select_user_progress_def single_def accepted_defs ex_defs)
qed

text \<open>
  The claim as stated fails for a sub-field supplied as 0: the document written has
  \<open>progress_data = 0\<close>, and the document read back has the empty object there.
\<close>

theorem userProgress_update_then_get_counterexample:
  "userProgress_update 10 ex_db 7 2 ex_doc_zero =
     (Inr (Some ex_row_zero), ex_db\<lparr>public_user_progress := [ex_row_zero]\<rparr>) \<and>
   userProgress_get (pg_select_user_progress (ex_db\<lparr>public_user_progress := [ex_row_zero]\<rparr>)) 7 2 =
     Inr (Some ex_row_zero) \<and>
   progress_data ex_doc_zero = Some (JNum 0) \<and>
   up_progress_data ex_row_zero = JObj fmempty"
  by (simp add: userProgress_update_def pg_upsert_user_progress_def Let_def try_catch_def js_or_def
      same_pk_def same_user_year_def userProgress_get_def pg_select_user_progress_def
      single_def accepted_defs ex_defs)

section \<open>Quiz history\<close>



section \<open>Bookmarks: conflict and removal\<close>




section \<open>Password reset by security answer\<close>




text \<open>
  Claim C10, as amended. \<^verbatim>\<open>resetPassword\<close> makes its lookup with the supplied email in
  lower case and compares it with the stored email as it is, so a profile whose stored
  email is not in lower case is never the one selected: the call with any casing of
  that email fails with \<open>User not found\<close>, whatever the verification would say, unless
  another profile that the caller sees stores the email in lower case. The verification
  receives the supplied answer in lower case: with one profile selected, a verification
  that does not answer \<^verbatim>\<open>true\<close> for the answer in lower case fails the call with
  \<open>Invalid security answer\<close>; and two calls whose emails and whose answers agree in
  lower case have the same outcome, whatever the verification function is.
\<close>

theorem resetPassword_lowercases:
  "(p_email p = Some stored \<and> toLowerCase stored \<noteq> stored \<and>
    toLowerCase email = toLowerCase stored \<and>
    (\<forall>q\<in>set (public_profiles d). q \<noteq> p \<longrightarrow>
        \<not> (visible_profile supabaseAnonKey auth_uid q \<and> p_email q = Some (toLowerCase email))) \<longrightarrow>
      resetPassword toLowerCase rpc auth_uid d email securityAnswer newPassword =
        (Inl (Error ''User not found''), d)) \<and>
   (\<forall>q v. profiles_by_email supabaseAnonKey auth_uid d (toLowerCase email) = [q] \<and>
        rpc (p_id q) (toLowerCase securityAnswer) = Resolved v \<and> reply_data v \<noteq> Some True \<longrightarrow>
      resetPassword toLowerCase rpc auth_uid d email securityAnswer newPassword =
        (Inl (Error ''Invalid security answer''), d)) \<and>
   (toLowerCase email = toLowerCase email' \<and>
    toLowerCase securityAnswer = toLowerCase answer' \<longrightarrow>
      resetPassword toLowerCase rpc auth_uid d email securityAnswer newPassword =
        resetPassword toLowerCase rpc auth_uid d email' answer' newPassword)"
proof (intro conjI allI impI)
  assume h: "p_email p = Some stored \<and> toLowerCase stored \<noteq> stored \<and>
    toLowerCase email = toLowerCase stored \<and>
    (\<forall>q\<in>set (public_profiles d). q \<noteq> p \<longrightarrow>
        \<not> (visible_profile supabaseAnonKey auth_uid q \<and> p_email q = Some (toLowerCase email)))"
  have "profiles_by_email supabaseAnonKey auth_uid d (toLowerCase email) = []"
  proof (rule ccontr)
    assume "profiles_by_email supabaseAnonKey auth_uid d (toLowerCase email) \<noteq> []"
    then obtain q where q: "q \<in> set (public_profiles d)"
        "visible_profile supabaseAnonKey auth_uid q" "p_email q = Some (toLowerCase email)"
      by (auto simp: profiles_by_email_def filter_empty_conv)
    with h have "q = p"
      by blast
    with h q show False
      by simp
  qed
  then have "\<forall>r. profiles_by_email supabaseAnonKey auth_uid d (toLowerCase email) \<noteq> [r]"
    by simp
  then show "resetPassword toLowerCase rpc auth_uid d email securityAnswer newPassword =
      (Inl (Error ''User not found''), d)"
    by (rule reset_not_single)
next
  fix q v
  assume "profiles_by_email supabaseAnonKey auth_uid d (toLowerCase email) = [q] \<and>
    rpc (p_id q) (toLowerCase securityAnswer) = Resolved v \<and> reply_data v \<noteq> Some True"
  then show "resetPassword toLowerCase rpc auth_uid d email securityAnswer newPassword =
      (Inl (Error ''Invalid security answer''), d)"
    by (simp add: reset_single)
next
  assume eq: "toLowerCase email = toLowerCase email' \<and>
    toLowerCase securityAnswer = toLowerCase answer'"
  then have e1: "toLowerCase email = toLowerCase email'"
    and e2: "toLowerCase securityAnswer = toLowerCase answer'"
    by simp_all
  show "resetPassword toLowerCase rpc auth_uid d email securityAnswer newPassword =
      resetPassword toLowerCase rpc auth_uid d email' answer' newPassword"
    unfolding resetPassword_def e1 e2 by (rule refl)
qed

theorem resetPassword_lowercases_witness:
  "ex_toLowerCase ''Al@b.com'' \<noteq> ''Al@b.com'' \<and>
   resetPassword ex_toLowerCase ex_rpc (Some 8) ex_db ''AL@B.COM'' ''Rex'' ''newpass'' =
     (Inl (Error ''User not found''), ex_db) \<and>
   resetPassword ex_toLowerCase ex_rpc (Some 7) ex_db ''A@B.com'' ''Green'' ''newpass'' =
     (Inl (Error ''Invalid security answer''), ex_db) \<and>
   resetPassword ex_toLowerCase ex_rpc (Some 7) ex_db ''A@B.com'' ''BLUE'' ''newpass'' =
     resetPassword ex_toLowerCase ex_rpc (Some 7) ex_db ''a@b.com'' ''blue'' ''newpass''"
proof -
  have em: "p_email ex_profile_upper = Some ''Al@b.com''"
    by (simp add: ex_profile_upper_def)
  have up: "ex_toLowerCase ''Al@b.com'' \<noteq> ''Al@b.com''"
    by (simp add: lower_defs)
  have c1: "ex_toLowerCase ''AL@B.COM'' = ex_toLowerCase ''Al@b.com''"
    by (simp add: lower_defs)
  have others: "\<forall>q\<in>set (public_profiles ex_db). q \<noteq> ex_profile_upper \<longrightarrow>
      \<not> (visible_profile supabaseAnonKey (Some 8) q \<and>
         p_email q = Some (ex_toLowerCase ''AL@B.COM''))"
    by (simp add: visible_profile_def supabaseAnonKey_def ex_defs)
  have one: "profiles_by_email supabaseAnonKey (Some 7) ex_db (ex_toLowerCase ''A@B.com'') =
      [ex_profile]"
    by (simp add: profiles_by_email_def visible_profile_def supabaseAnonKey_def ex_defs
        lower_defs)
  have id: "p_id ex_profile = 7"
    by (simp add: ex_profile_def)
  have no: "ex_rpc 7 (ex_toLowerCase ''Green'') = Resolved (Reply (Some False) None)"
    by (simp add: ex_rpc_def lower_defs)
  have e1: "ex_toLowerCase ''A@B.com'' = ex_toLowerCase ''a@b.com''"
    by (simp add: lower_defs)
  have e2: "ex_toLowerCase ''BLUE'' = ex_toLowerCase ''blue''"
    by (simp add: lower_defs)
  show ?thesis
    using resetPassword_lowercases [of ex_profile_upper "''Al@b.com''" ex_toLowerCase
        "''AL@B.COM''" ex_db "Some 8" ex_rpc "''Rex''" "''newpass''" "''AL@B.COM''" "''Rex''"]
      resetPassword_lowercases [of ex_profile_upper "''Al@b.com''" ex_toLowerCase
        "''A@B.com''" ex_db "Some 7" ex_rpc "''Green''" "''newpass''" "''A@B.com''" "''Green''"]
      resetPassword_lowercases [of ex_profile_upper "''Al@b.com''" ex_toLowerCase
        "''A@B.com''" ex_db "Some 7" ex_rpc "''BLUE''" "''newpass''" "''a@b.com''" "''blue''"]
      em up c1 others one id no e1 e2
    by simp
qed

text \<open>
  The claim as stated fails where a second account stores the email in lower case:
  the profile 8 stores \<open>Al@b.com\<close>, the call by the signed-in account 9 with the casing
  \<open>AL@B.COM\<close> selects the profile 9 and ends in the verification of the answer, not in
  \<open>User not found\<close>.
\<close>

theorem resetPassword_other_casing_counterexample:
  "resetPassword ex_toLowerCase ex_rpc (Some 9) ex_db_casings ''AL@B.COM'' ''Rex'' ''newpass'' =
     (Inl (Error ''Invalid security answer''), ex_db_casings) \<and>
   p_email ex_profile_upper = Some ''Al@b.com'' \<and>
   ex_toLowerCase ''AL@B.COM'' = ex_toLowerCase ''Al@b.com'' \<and>
   ex_toLowerCase ''Al@b.com'' \<noteq> ''Al@b.com''"
  by (simp add: resetPassword_def pg_select_profile_by_email_def profiles_by_email_def
      visible_profile_def supabaseAnonKey_def single_def try_catch_def ex_rpc_def ex_defs
      lower_defs)

end
